theory Spec2Isabelle
  imports Main
begin

section \<open>Lumi: conversation window and dispatch policy (cogs/ai.py)\<close>

text \<open>
  A shallow embedding of the class \<open>LumiCog\<close>. The cog's mutable attributes and the two
  SQLite tables form an explicit state record; every handler takes the state and returns
  the new state together with what it sent to the chat platform. What the collaborators
  do (the HTTP exchange, a failing \<open>message.reply\<close>, a failing SQL statement, the clock)
  is an input of the handler.

  A Python \<open>str\<close> is a \<open>string\<close>, one \<open>char\<close> per code point, which covers the code
  points below 256; \<open>len\<close> is \<open>length\<close>.
\<close>

subsection \<open>Python primitives used by the cog\<close>

text \<open>\<open>str(n)\<close> for a non-negative integer (Discord ids are non-negative): its decimal
  digits, the most significant first.\<close>

function str_nat :: "nat \<Rightarrow> string" where
  "str_nat n =
     (if n < 10 then [''0123456789'' ! n]
      else str_nat (n div 10) @ [''0123456789'' ! (n mod 10)])"
  by pat_completeness auto
termination
  by (relation "measure (\<lambda>n. n)") auto

declare str_nat.simps [simp del]

text \<open>
  \<open>s.replace(old, new)\<close>: the non-overlapping occurrences of \<open>old\<close> are replaced from
  left to right; an empty \<open>old\<close> matches before every character and at the end.
\<close>

function replace :: "string \<Rightarrow> string \<Rightarrow> string \<Rightarrow> string" where
  "replace old new [] = (if old = [] then new else [])"
| "replace old new (c # cs) =
     (if old = [] then new @ c # replace old new cs
      else if take (length old) (c # cs) = old
        then new @ replace old new (drop (length old) (c # cs))
      else c # replace old new cs)"
  by pat_completeness auto
termination
  by (relation "measure (\<lambda>(old, new, s). length s)") auto

declare replace.simps [simp del]

text \<open>\<open>c.isspace()\<close> on the code points below 256.\<close>

definition isspace :: "char \<Rightarrow> bool" where
  "isspace c =
     ((of_char c :: nat) \<in> set [9, 10, 11, 12, 13, 28, 29, 30, 31, 32, 133, 160])"

text \<open>\<open>s.strip()\<close>: leading and trailing whitespace removed.\<close>

definition strip :: "string \<Rightarrow> string" where
  "strip s = rev (dropWhile isspace (rev (dropWhile isspace s)))"

text \<open>
  The slice \<open>xs[-n:]\<close>. For \<open>n > 0\<close> it starts \<open>n\<close> places before the end, clamped to
  the start of the list; \<open>xs[-0:]\<close> is \<open>xs[0:]\<close>, the whole list.
\<close>

definition slice_last :: "nat \<Rightarrow> 'a list \<Rightarrow> 'a list" where
  "slice_last n xs = (if n = 0 then xs else drop (length xs - n) xs)"

subsection \<open>Data model\<close>

datatype role = User | Assistant | System

text \<open>A message dictionary \<open>{"role": ..., "content": ...}\<close>.\<close>

record turn =
  role :: role
  content :: string

text \<open>A row of the table \<open>allowed_channels\<close>; its primary key is (guild_id, channel_id).\<close>

record allowed_row =
  guild_id :: string
  channel_id :: string
  added_by :: string
  added_at :: string

text \<open>
  A row of the table \<open>usage_stats\<close>, with the columns the cog writes. The column \<open>id\<close> is
  assigned by SQLite (\<open>AUTOINCREMENT\<close>) and never written or read by the cog; it is not
  part of the row. The columns \<open>guild_id\<close> and \<open>channel_id\<close> carry the prefix \<open>stat_\<close>
  here, since a field name belongs to one record type.
\<close>

record usage_row =
  user_id :: string
  stat_guild_id :: string
  stat_channel_id :: string
  timestamp :: string
  message_length :: nat
  response_length :: nat

text \<open>
  The cog: \<open>self.bot.user.id\<close>, \<open>self.conversation_history\<close> (a dict from user id to a
  list of turns), and the two tables of \<open>self.db_path\<close>.
\<close>

record lumi =
  bot_user :: nat
  conversation_history :: "string \<rightharpoonup> turn list"
  allowed_channels :: "allowed_row list"
  usage_stats :: "usage_row list"

definition max_history :: nat where
  "max_history = 3"

definition system_prompt :: turn where
  "system_prompt = \<lparr>role = System, content =
     ''You are Lumi, an 18-year-old girl who enjoys talking with friends on Discord. '' @
     ''You're friendly, helpful, and a bit playful. You have many interests like music, '' @
     ''art, games, and hanging out with friends. Keep your responses short, casual, and '' @
     ''genuine like a real teenager would talk. Don't mention that you're an AI or that '' @
     ''you're powered by any model. Just be Lumi.''\<rparr>"

text \<open>
  \<open>__init__\<close>: an empty history. \<open>init_database\<close> creates the tables only if they do not
  exist, so the rows of an earlier run are kept.
\<close>

definition LumiCog :: "nat \<Rightarrow> allowed_row list \<Rightarrow> usage_row list \<Rightarrow> lumi" where
  "LumiCog bot_id db_allowed db_usage =
     \<lparr>bot_user = bot_id, conversation_history = Map.empty,
      allowed_channels = db_allowed, usage_stats = db_usage\<rparr>"

text \<open>
  An inbound message. \<open>guild\<close> is \<open>message.guild.id\<close>, \<open>None\<close> for a direct message: a
  bot account receives messages in guild channels and in one-to-one DM channels only, so
  \<open>isinstance(message.channel, nextcord.DMChannel)\<close> holds exactly when \<open>message.guild\<close>
  is \<open>None\<close>. \<open>mentions_bot\<close> is the value of \<open>self.bot.user.mentioned_in(message)\<close>.
\<close>

record message =
  author :: nat
  text_content :: string
  guild :: "nat option"
  channel :: nat
  mentions_bot :: bool

text \<open>
  The HTTP exchange of \<open>call_groq_api\<close>: \<open>requests.post\<close> raises (timeout, connection
  error), or returns a response with a status code. \<open>body\<close> is what
  \<open>response.json()["choices"][0]["message"]["content"]\<close> does on that response: it
  raises (\<open>Malformed\<close>) or it yields the text. A body whose content is not a string is
  outside the model.
\<close>

datatype body = Malformed | Content string

datatype http_result = Request_Error | Response nat body

text \<open>
  What the collaborators do while one event is handled: the HTTP exchange, whether
  \<open>message.reply(response)\<close> raises, whether the SQL statement of the handler raises, and
  \<open>datetime.now().isoformat()\<close>. Exceptions that leave a handler (a failing send inside an
  \<open>except\<close> block, a failing read in \<open>on_message\<close>) are not modelled.
\<close>

record env =
  http :: http_result
  reply_raises :: bool
  store_raises :: bool
  now :: string

text \<open>
  The invocation context of a command: \<open>ctx.guild.id\<close> (\<open>None\<close> outside a guild),
  \<open>ctx.channel.id\<close>, \<open>ctx.author.id\<close>, and whether the host's check
  \<open>has_permissions(administrator=True)\<close> lets the command run.
\<close>

record ctx =
  ctx_guild :: "nat option"
  ctx_channel :: nat
  ctx_author :: nat
  administrator :: bool

text \<open>
  The texts a command sends with \<open>ctx.send\<close>, one constructor per f-string of the source;
  the argument is the id whose \<open>mention\<close> the text contains.
\<close>

datatype feedback =
    Servers_Only
  | Now_Chatting nat
  | Error_Adding
  | No_Longer_Chatting nat
  | Not_In_List
  | Error_Removing
  | History_Reset nat
  | No_History_Found nat
  | Missing_Permissions

text \<open>
  What a handler emits: the message list posted to the completion endpoint, a reply to the
  inbound message, a text sent by a command.
\<close>

datatype action = Post "turn list" | Reply string | Send feedback

subsection \<open>Store access\<close>

definition is_channel_allowed :: "lumi \<Rightarrow> string \<Rightarrow> string \<Rightarrow> bool" where
  "is_channel_allowed s g c =
     (length (filter (\<lambda>r. guild_id r = g \<and> channel_id r = c) (allowed_channels s)) > 0)"

text \<open>\<open>log_usage\<close>: one row inserted, with the six values of the \<open>INSERT\<close> statement.\<close>

definition log_usage ::
  "lumi \<Rightarrow> string \<Rightarrow> string \<Rightarrow> string \<Rightarrow> string \<Rightarrow> nat \<Rightarrow> nat \<Rightarrow> lumi" where
  "log_usage s uid gid cid ts mlen rlen =
     s\<lparr>usage_stats := usage_stats s @
        [\<lparr>user_id = uid, stat_guild_id = gid, stat_channel_id = cid, timestamp = ts,
          message_length = mlen, response_length = rlen\<rparr>]\<rparr>"

subsection \<open>The completion call\<close>

definition call_groq_api :: "http_result \<Rightarrow> string" where
  "call_groq_api h =
     (case h of
        Request_Error \<Rightarrow> ''Network error occurred. Please try again later.''
      | Response status b \<Rightarrow>
          if status = 200 then
            (case b of
               Content txt \<Rightarrow> txt
             | Malformed \<Rightarrow> ''Network error occurred. Please try again later.'')
          else ''Sorry, I couldn't generate a response right now. Try again later?'')"

text \<open>The failures of the completion call: no response, a status other than 200, or a
  response whose body does not hold the text.\<close>

definition completion_failed :: "http_result \<Rightarrow> bool" where
  "completion_failed h =
     (case h of
        Request_Error \<Rightarrow> True
      | Response status b \<Rightarrow> status \<noteq> 200 \<or> b = Malformed)"

subsection \<open>The conversation window\<close>

text \<open>The window of a user as \<open>process_message\<close> reads it: a missing key is initialised
  with the empty list first.\<close>

definition window :: "lumi \<Rightarrow> string \<Rightarrow> turn list" where
  "window s uid = (case conversation_history s uid of None \<Rightarrow> [] | Some w \<Rightarrow> w)"

text \<open>The trimming statement, the same after both appends.\<close>

definition trim_history :: "turn list \<Rightarrow> turn list" where
  "trim_history w = (if length w > max_history then slice_last max_history w else w)"

text \<open>One append to a window followed by the trimming statement.\<close>

definition append_history :: "turn list \<Rightarrow> turn \<Rightarrow> turn list" where
  "append_history w t = trim_history (w @ [t])"

subsection \<open>Handling a message\<close>

text \<open>\<open>clean_content\<close>: the token \<open><@id>\<close> of the bot removed from the text, then the
  result stripped.\<close>

definition clean :: "lumi \<Rightarrow> string \<Rightarrow> string" where
  "clean s txt = strip (replace (''<@'' @ str_nat (bot_user s) @ ''>'') [] txt)"

text \<open>The reply of the \<open>except\<close> block of \<open>process_message\<close>.\<close>

definition apology :: string where
  "apology = ''Oops! Something went wrong. Try again in a bit?''"

text \<open>
  \<open>process_message\<close>. The \<open>try\<close> block can be left at \<open>message.reply(response)\<close> and in
  \<open>log_usage\<close>; the assignments made before that point stay, and the handler replies with
  the apology.
\<close>

definition process_message :: "lumi \<Rightarrow> message \<Rightarrow> env \<Rightarrow> lumi \<times> action list" where
  "process_message s m e =
     (let uid = str_nat (author m);
          clean_content = clean s (text_content m);
          w1 = append_history (window s uid) \<lparr>role = User, content = clean_content\<rparr>;
          s1 = s\<lparr>conversation_history := (conversation_history s)(uid \<mapsto> w1)\<rparr>;
          messages = system_prompt # w1;
          response = call_groq_api (http e)
      in if reply_raises e then (s1, [Post messages, Reply apology])
         else
           let w2 = append_history w1 \<lparr>role = Assistant, content = response\<rparr>;
               s2 = s1\<lparr>conversation_history := (conversation_history s1)(uid \<mapsto> w2)\<rparr>;
               gid = (case guild m of Some g \<Rightarrow> str_nat g | None \<Rightarrow> ''DM'');
               cid = str_nat (channel m)
           in if store_raises e then (s2, [Post messages, Reply response, Reply apology])
              else (log_usage s2 uid gid cid (now e) (length clean_content) (length response),
                    [Post messages, Reply response]))"

text \<open>\<open>on_message\<close>: the bot's own messages are ignored; a direct message is always
  processed; a guild message is processed when it mentions the bot or its channel is
  allowed.\<close>

definition on_message :: "lumi \<Rightarrow> message \<Rightarrow> env \<Rightarrow> lumi \<times> action list" where
  "on_message s m e =
     (if author m = bot_user s then (s, [])
      else case guild m of
        None \<Rightarrow> (if mentions_bot m \<or> True then process_message s m e else (s, []))
      | Some g \<Rightarrow>
          if mentions_bot m \<or> is_channel_allowed s (str_nat g) (str_nat (channel m))
          then process_message s m e
          else (s, []))"

subsection \<open>Commands\<close>

text \<open>\<open>add_channel\<close>: \<open>INSERT OR REPLACE\<close> removes a row with the same primary key
  before it inserts the new one.\<close>

definition add_channel :: "lumi \<Rightarrow> ctx \<Rightarrow> nat option \<Rightarrow> env \<Rightarrow> lumi \<times> action list" where
  "add_channel s cx chan e =
     (if \<not> administrator cx then (s, [Send Missing_Permissions])
      else case ctx_guild cx of
        None \<Rightarrow> (s, [Send Servers_Only])
      | Some g \<Rightarrow>
          let ch = (case chan of None \<Rightarrow> ctx_channel cx | Some c \<Rightarrow> c);
              row = \<lparr>guild_id = str_nat g, channel_id = str_nat ch,
                     added_by = str_nat (ctx_author cx), added_at = now e\<rparr>
          in if store_raises e then (s, [Send Error_Adding])
             else (s\<lparr>allowed_channels :=
                       filter (\<lambda>r. \<not> (guild_id r = guild_id row \<and> channel_id r = channel_id row))
                         (allowed_channels s) @ [row]\<rparr>,
                   [Send (Now_Chatting ch)]))"

text \<open>\<open>remove_channel\<close>: \<open>cursor.rowcount\<close> is the number of rows deleted.\<close>

definition remove_channel :: "lumi \<Rightarrow> ctx \<Rightarrow> nat option \<Rightarrow> env \<Rightarrow> lumi \<times> action list" where
  "remove_channel s cx chan e =
     (if \<not> administrator cx then (s, [Send Missing_Permissions])
      else case ctx_guild cx of
        None \<Rightarrow> (s, [Send Servers_Only])
      | Some g \<Rightarrow>
          let ch = (case chan of None \<Rightarrow> ctx_channel cx | Some c \<Rightarrow> c);
              gid = str_nat g;
              cid = str_nat ch
          in if store_raises e then (s, [Send Error_Removing])
             else
               let rowcount = length (filter (\<lambda>r. guild_id r = gid \<and> channel_id r = cid)
                                        (allowed_channels s));
                   s' = s\<lparr>allowed_channels :=
                            filter (\<lambda>r. \<not> (guild_id r = gid \<and> channel_id r = cid))
                              (allowed_channels s)\<rparr>
               in if rowcount > 0 then (s', [Send (No_Longer_Chatting ch)])
                  else (s', [Send Not_In_List]))"

text \<open>\<open>reset_history\<close>: the target is the given member, the invoker by default.\<close>

definition reset_history :: "lumi \<Rightarrow> ctx \<Rightarrow> nat option \<Rightarrow> lumi \<times> action list" where
  "reset_history s cx usr =
     (if \<not> administrator cx then (s, [Send Missing_Permissions])
      else
        let target_user = (case usr of Some u \<Rightarrow> u | None \<Rightarrow> ctx_author cx);
            uid = str_nat target_user
        in if uid \<in> dom (conversation_history s)
           then (s\<lparr>conversation_history := (conversation_history s)(uid \<mapsto> [])\<rparr>,
                 [Send (History_Reset target_user)])
           else (s, [Send (No_History_Found target_user)]))"

subsection \<open>Runs of the cog\<close>

datatype event =
    Message message env
  | Add_Channel ctx "nat option" env
  | Remove_Channel ctx "nat option" env
  | Reset_History ctx "nat option"

fun handle :: "lumi \<Rightarrow> event \<Rightarrow> lumi" where
  "handle s (Message m e) = fst (on_message s m e)"
| "handle s (Add_Channel cx chan e) = fst (add_channel s cx chan e)"
| "handle s (Remove_Channel cx chan e) = fst (remove_channel s cx chan e)"
| "handle s (Reset_History cx usr) = fst (reset_history s cx usr)"

text \<open>The state after a sequence of events, handled one at a time in arrival order.\<close>

definition run :: "lumi \<Rightarrow> event list \<Rightarrow> lumi" where
  "run s evs = foldl handle s evs"

text \<open>A window as the cog keeps it: at most \<open>max_history\<close> turns, none of them a system
  turn.\<close>

definition window_ok :: "turn list \<Rightarrow> bool" where
  "window_ok w = (length w \<le> max_history \<and> (\<forall>x\<in>set w. role x \<noteq> System))"

section \<open>Properties of the window\<close>

lemma trim_history_length: "length (trim_history w) \<le> max_history"
  by (simp add: trim_history_def slice_last_def max_history_def)

lemma append_history_length: "length (append_history w t) \<le> max_history"
  by (simp add: append_history_def trim_history_length)

lemma append_history_drop:
  "append_history w t = drop (Suc (length w) - max_history) (w @ [t])"
  by (simp add: append_history_def trim_history_def slice_last_def max_history_def)

text \<open>A run of appends keeps the newest \<open>max_history\<close> entries of everything seen.\<close>

lemma foldl_append_history:
  "length w \<le> max_history \<Longrightarrow>
   foldl append_history w ts = drop (length w + length ts - max_history) (w @ ts)"
proof (induction ts rule: rev_induct)
  case Nil
  then show ?case by simp
next
  case (snoc t ts)
  define k where "k = length w + length ts - max_history"
  define ys where "ys = w @ ts"
  have k: "k \<le> length ys" by (simp add: k_def ys_def)
  have len: "length ys = length w + length ts" by (simp add: ys_def)
  have "foldl append_history w (ts @ [t]) = append_history (drop k ys) t"
    using snoc by (simp add: k_def ys_def)
  also have "\<dots> = drop (Suc (length (drop k ys)) - max_history) (drop k ys @ [t])"
    by (rule append_history_drop)
  also have "drop k ys @ [t] = drop k (ys @ [t])"
    using k by simp
  also have "drop (Suc (length (drop k ys)) - max_history) (drop k (ys @ [t]))
      = drop (Suc (length (drop k ys)) - max_history + k) (ys @ [t])"
    by (simp only: drop_drop)
  also have "Suc (length (drop k ys)) - max_history + k
      = length w + length (ts @ [t]) - max_history"
    using len by (simp add: k_def)
  finally show ?case by (simp add: ys_def)
qed

text \<open>
  What the two trimming statements do to a window that starts empty: after any sequence of
  appends it holds the newest \<open>min total max_history\<close> entries in their original order,
  the oldest evicted first.
\<close>

lemma append_history_newest:
  "foldl append_history [] ts = drop (length ts - min (length ts) max_history) ts \<and>
   length (foldl append_history [] ts) = min (length ts) max_history"
proof -
  have eq: "foldl append_history [] ts = drop (length ts - max_history) ts"
    using foldl_append_history [of "[]" ts] by simp
  have k: "length ts - min (length ts) max_history = length ts - max_history"
    by simp
  show ?thesis
    unfolding eq k by auto
qed

text \<open>
  C1 (code bug). The claim keeps the newest \<open>min total (2 * max_history)\<close> entries, that
  is \<open>max_history\<close> exchanges, as the comment above the second trimming statement says
  (\<^verbatim>\<open>Ensure we only keep the last 'max_history' exchanges\<close>). The statement cuts to \<open>max_history\<close>
  entries instead. A user writes \<open>a\<close> and is answered \<open>b\<close>, then writes \<open>c\<close> and is
  answered \<open>d\<close>: four appends, two exchanges. The window holds \<open>a, b, c, d\<close> after the
  last append, and the trimming statement after it drops \<open>a\<close>; three entries are left
  where the claim keeps all four.
\<close>

theorem two_exchanges_window:
  "window (run (LumiCog 1 [] [])
      [Message \<lparr>author = 7, text_content = ''a'', guild = None, channel = 5,
                 mentions_bot = False\<rparr>
               \<lparr>http = Response 200 (Content ''b''), reply_raises = False,
                 store_raises = False, now = ''t1''\<rparr>,
       Message \<lparr>author = 7, text_content = ''c'', guild = None, channel = 5,
                 mentions_bot = False\<rparr>
               \<lparr>http = Response 200 (Content ''d''), reply_raises = False,
                 store_raises = False, now = ''t2''\<rparr>]) ''7''
   = [\<lparr>role = Assistant, content = ''b''\<rparr>, \<lparr>role = User, content = ''c''\<rparr>,
      \<lparr>role = Assistant, content = ''d''\<rparr>] \<and>
   length (window (run (LumiCog 1 [] [])
      [Message \<lparr>author = 7, text_content = ''a'', guild = None, channel = 5,
                 mentions_bot = False\<rparr>
               \<lparr>http = Response 200 (Content ''b''), reply_raises = False,
                 store_raises = False, now = ''t1''\<rparr>,
       Message \<lparr>author = 7, text_content = ''c'', guild = None, channel = 5,
                 mentions_bot = False\<rparr>
               \<lparr>http = Response 200 (Content ''d''), reply_raises = False,
                 store_raises = False, now = ''t2''\<rparr>]) ''7'')
   < min 4 (2 * max_history)"
  by (simp add: run_def on_message_def process_message_def Let_def log_usage_def window_def
      LumiCog_def str_nat.simps clean_def replace.simps strip_def isspace_def
      append_history_def trim_history_def slice_last_def max_history_def call_groq_api_def)

section \<open>Properties of the completion call\<close>

text \<open>
  C3 (amended). The claim has one apology text for every failure. \<open>call_groq_api\<close> has
  two: a failure is converted to one of two fixed texts, chosen by the kind of failure
  alone. A request that raises and a 200 response whose body is malformed give the
  network-error text; a status other than 200 gives the could-not-generate text.
\<close>

theorem call_groq_api_fallbacks:
  "completion_failed h \<Longrightarrow>
   call_groq_api h =
     (if h = Request_Error \<or> h = Response 200 Malformed
      then ''Network error occurred. Please try again later.''
      else ''Sorry, I couldn't generate a response right now. Try again later?'')"
  by (auto simp: completion_failed_def call_groq_api_def split: http_result.splits body.splits)

theorem call_groq_api_fallbacks_witness:
  "completion_failed (Response 503 (Content ''busy'')) \<and>
   call_groq_api (Response 503 (Content ''busy'')) =
     ''Sorry, I couldn't generate a response right now. Try again later?''"
proof -
  have h: "completion_failed (Response 503 (Content ''busy''))"
    by (simp add: completion_failed_def)
  show ?thesis using h call_groq_api_fallbacks [OF h] by simp
qed

text \<open>C3 as stated fails: a request that raises and a response with status 500 are both
  failures, and their texts differ.\<close>

theorem call_groq_api_single_apology_counterexample:
  "completion_failed Request_Error \<and> completion_failed (Response 500 Malformed) \<and>
   call_groq_api Request_Error \<noteq> call_groq_api (Response 500 Malformed)"
  by (simp add: completion_failed_def call_groq_api_def)

section \<open>Properties of the dispatch\<close>

lemma process_message_responds: "snd (process_message s m e) \<noteq> []"
  by (simp add: process_message_def Let_def)

text \<open>
  C4 (amended). The claim's truth table holds for every inbound message that the bot did
  not write itself: \<open>on_message\<close> returns at once on a message whose author is the bot,
  direct or not. For the others, a direct message is always processed, and a guild message
  is processed exactly when it mentions the bot or its channel is allowed; a message that
  is not processed leaves the state as it was and emits nothing.
\<close>

theorem on_message_dispatch:
  "(snd (on_message s m e) \<noteq> []) =
     (author m \<noteq> bot_user s \<and>
      (case guild m of
         None \<Rightarrow> True
       | Some g \<Rightarrow> mentions_bot m \<or> is_channel_allowed s (str_nat g) (str_nat (channel m)))) \<and>
   (snd (on_message s m e) \<noteq> [] \<longrightarrow> on_message s m e = process_message s m e) \<and>
   (snd (on_message s m e) = [] \<longrightarrow> on_message s m e = (s, []))"
  by (simp add: on_message_def process_message_responds split: option.splits)

text \<open>A guild message without a mention in an allowed channel is answered.\<close>

theorem on_message_dispatch_witness:
  "snd (on_message
     (LumiCog 1 [\<lparr>guild_id = ''10'', channel_id = ''20'', added_by = ''3'', added_at = ''t''\<rparr>] [])
     \<lparr>author = 7, text_content = ''hi'', guild = Some 10, channel = 20, mentions_bot = False\<rparr>
     \<lparr>http = Response 200 (Content ''hey!''), reply_raises = False, store_raises = False,
      now = ''t''\<rparr>) \<noteq> []"
  using on_message_dispatch
    [of "LumiCog 1 [\<lparr>guild_id = ''10'', channel_id = ''20'', added_by = ''3'', added_at = ''t''\<rparr>] []"
        "\<lparr>author = 7, text_content = ''hi'', guild = Some 10, channel = 20, mentions_bot = False\<rparr>"
        "\<lparr>http = Response 200 (Content ''hey!''), reply_raises = False, store_raises = False,
          now = ''t''\<rparr>"]
  by (simp add: LumiCog_def is_channel_allowed_def str_nat.simps)

text \<open>C4 as stated fails: a direct message written by the bot itself (and mentioning it)
  triggers nothing.\<close>

theorem on_message_own_dm_counterexample:
  "guild \<lparr>author = 1, text_content = ''hi'', guild = None, channel = 5, mentions_bot = True\<rparr> = None \<and>
   snd (on_message (LumiCog 1 [] [])
     \<lparr>author = 1, text_content = ''hi'', guild = None, channel = 5, mentions_bot = True\<rparr>
     \<lparr>http = Response 200 (Content ''hey!''), reply_raises = False, store_raises = False,
      now = ''t''\<rparr>) = []"
  by (simp add: on_message_def LumiCog_def)

section \<open>Properties of the commands\<close>

text \<open>
  C6. When the command runs (the invoker is an administrator): for a target without a
  window, \<open>reset_history\<close> changes nothing and reports that no history was found; for a
  target whose window holds at least one turn it stores the empty window and reports the
  reset; and in every case the target's window read afterwards is empty.
\<close>

theorem reset_history_outcomes:
  "administrator cx \<Longrightarrow>
   (let t = (case usr of Some u \<Rightarrow> u | None \<Rightarrow> ctx_author cx) in
      (conversation_history s (str_nat t) = None \<longrightarrow>
         reset_history s cx usr = (s, [Send (No_History_Found t)])) \<and>
      (\<forall>w. conversation_history s (str_nat t) = Some w \<longrightarrow> w \<noteq> [] \<longrightarrow>
         reset_history s cx usr =
           (s\<lparr>conversation_history := (conversation_history s)(str_nat t \<mapsto> [])\<rparr>,
            [Send (History_Reset t)])) \<and>
      window (fst (reset_history s cx usr)) (str_nat t) = [])"
  by (auto simp: reset_history_def Let_def window_def split: option.splits)

theorem reset_history_outcomes_witness:
  "reset_history
     \<lparr>bot_user = 1, conversation_history = [''7'' \<mapsto> [\<lparr>role = User, content = ''hi''\<rparr>]],
      allowed_channels = [], usage_stats = []\<rparr>
     \<lparr>ctx_guild = Some 10, ctx_channel = 20, ctx_author = 7, administrator = True\<rparr> None
   = (\<lparr>bot_user = 1, conversation_history = [''7'' \<mapsto> [\<lparr>role = User, content = ''hi''\<rparr>]],
       allowed_channels = [], usage_stats = []\<rparr>
        \<lparr>conversation_history := [''7'' \<mapsto> [\<lparr>role = User, content = ''hi''\<rparr>]](''7'' \<mapsto> [])\<rparr>,
      [Send (History_Reset 7)])"
  using reset_history_outcomes
    [of "\<lparr>ctx_guild = Some 10, ctx_channel = 20, ctx_author = 7, administrator = True\<rparr>" None
        "\<lparr>bot_user = 1, conversation_history = [''7'' \<mapsto> [\<lparr>role = User, content = ''hi''\<rparr>]],
          allowed_channels = [], usage_stats = []\<rparr>"]
  by (simp add: str_nat.simps)

text \<open>
  C9. The outcome of \<open>reset_history\<close> depends on the key alone: the reset is reported
  exactly when the target's key is in \<open>conversation_history\<close>, and the missing history
  exactly when it is not. So a window that is present and empty gets the reset report, and
  so does a second reset after a first one that found the key.
\<close>

theorem reset_history_by_key:
  "administrator cx \<Longrightarrow>
   (let t = (case usr of Some u \<Rightarrow> u | None \<Rightarrow> ctx_author cx) in
      (snd (reset_history s cx usr) = [Send (History_Reset t)]) =
        (str_nat t \<in> dom (conversation_history s)) \<and>
      (snd (reset_history s cx usr) = [Send (No_History_Found t)]) =
        (str_nat t \<notin> dom (conversation_history s)) \<and>
      (conversation_history s (str_nat t) = Some [] \<longrightarrow>
         snd (reset_history s cx usr) = [Send (History_Reset t)]) \<and>
      (str_nat t \<in> dom (conversation_history s) \<longrightarrow>
         snd (reset_history (fst (reset_history s cx usr)) cx usr) = [Send (History_Reset t)]))"
  by (auto simp: reset_history_def Let_def split: option.splits)

theorem reset_history_by_key_witness:
  "snd (reset_history
     \<lparr>bot_user = 1, conversation_history = [''7'' \<mapsto> []],
      allowed_channels = [], usage_stats = []\<rparr>
     \<lparr>ctx_guild = Some 10, ctx_channel = 20, ctx_author = 3, administrator = True\<rparr> (Some 7))
   = [Send (History_Reset 7)]"
  using reset_history_by_key
    [of "\<lparr>ctx_guild = Some 10, ctx_channel = 20, ctx_author = 3, administrator = True\<rparr>" "Some 7"
        "\<lparr>bot_user = 1, conversation_history = [''7'' \<mapsto> []],
          allowed_channels = [], usage_stats = []\<rparr>"]
  by (simp add: str_nat.simps)

text \<open>
  C7. When \<open>add_channel\<close> runs in a guild and its statement does not raise, it reports
  the channel as added and \<open>is_channel_allowed\<close> holds for the pair afterwards; when
  \<open>remove_channel\<close> runs in a guild and its statement does not raise,
  \<open>is_channel_allowed\<close> does not hold for the pair afterwards, also right after an add.
\<close>

theorem add_remove_channel_allowed:
  "administrator cx \<Longrightarrow> ctx_guild cx = Some g \<Longrightarrow> \<not> store_raises e \<Longrightarrow>
   (let ch = (case chan of None \<Rightarrow> ctx_channel cx | Some c \<Rightarrow> c) in
      snd (add_channel s cx chan e) = [Send (Now_Chatting ch)] \<and>
      is_channel_allowed (fst (add_channel s cx chan e)) (str_nat g) (str_nat ch) \<and>
      \<not> is_channel_allowed (fst (remove_channel s cx chan e)) (str_nat g) (str_nat ch) \<and>
      \<not> is_channel_allowed (fst (remove_channel (fst (add_channel s cx chan e)) cx chan e))
          (str_nat g) (str_nat ch))"
  by (simp add: add_channel_def remove_channel_def is_channel_allowed_def Let_def)

theorem add_remove_channel_allowed_witness:
  "is_channel_allowed
     (fst (add_channel (LumiCog 1 [] [])
        \<lparr>ctx_guild = Some 10, ctx_channel = 20, ctx_author = 3, administrator = True\<rparr> None
        \<lparr>http = Request_Error, reply_raises = False, store_raises = False, now = ''t''\<rparr>))
     ''10'' ''20''"
  using add_remove_channel_allowed
    [of "\<lparr>ctx_guild = Some 10, ctx_channel = 20, ctx_author = 3, administrator = True\<rparr>" 10
        "\<lparr>http = Request_Error, reply_raises = False, store_raises = False, now = ''t''\<rparr>"
        None "LumiCog 1 [] []"]
  by (simp add: str_nat.simps)

section \<open>Properties of message handling\<close>

lemma append_history_last: "last (append_history w t) = t"
  by (simp add: append_history_drop max_history_def)

lemma call_groq_api_failed:
  "completion_failed h \<Longrightarrow>
   call_groq_api h \<in> {''Network error occurred. Please try again later.'',
                       ''Sorry, I couldn't generate a response right now. Try again later?''}"
  by (auto simp: completion_failed_def call_groq_api_def split: http_result.splits body.splits)

text \<open>
  C2 (amended). The claim keeps the fallback text out of the window. \<open>call_groq_api\<close>
  returns that text as an ordinary result, and \<open>process_message\<close> treats it as the
  response: for every failure of the completion call, the author's window after the
  message is the window the prompt was built from when sending the reply raises, and
  otherwise that window with one assistant turn holding the fallback text appended and
  trimmed, so the fallback text is its last entry. No other window changes.
\<close>

theorem process_message_failure_window:
  "completion_failed (http e) \<Longrightarrow>
   (let uid = str_nat (author m);
        w1 = append_history (window s uid)
               \<lparr>role = User, content = clean s (text_content m)\<rparr>;
        fallback = \<lparr>role = Assistant, content = call_groq_api (http e)\<rparr>
    in conversation_history (fst (process_message s m e)) =
         (conversation_history s)
           (uid \<mapsto> (if reply_raises e then w1 else append_history w1 fallback)) \<and>
       (if reply_raises e then window (fst (process_message s m e)) uid = w1
        else last (window (fst (process_message s m e)) uid) = fallback) \<and>
       call_groq_api (http e) \<in>
         {''Network error occurred. Please try again later.'',
          ''Sorry, I couldn't generate a response right now. Try again later?''})"
  by (simp add: process_message_def Let_def log_usage_def window_def append_history_last
      call_groq_api_failed del: insert_iff)

theorem process_message_failure_window_witness:
  "completion_failed (http \<lparr>http = Response 500 Malformed, reply_raises = False,
      store_raises = False, now = ''t''\<rparr>) \<and>
   last (window (fst (process_message (LumiCog 1 [] [])
      \<lparr>author = 7, text_content = ''hi'', guild = None, channel = 5, mentions_bot = False\<rparr>
      \<lparr>http = Response 500 Malformed, reply_raises = False, store_raises = False,
        now = ''t''\<rparr>)) ''7'')
   = \<lparr>role = Assistant,
      content = ''Sorry, I couldn't generate a response right now. Try again later?''\<rparr>"
proof -
  have h: "completion_failed (http \<lparr>http = Response 500 Malformed, reply_raises = False,
      store_raises = False, now = ''t''\<rparr>)"
    by (simp add: completion_failed_def)
  show ?thesis
    using h process_message_failure_window [OF h, of
        "\<lparr>author = 7, text_content = ''hi'', guild = None, channel = 5, mentions_bot = False\<rparr>"
        "LumiCog 1 [] []"]
    by (simp add: Let_def str_nat.simps call_groq_api_def)
qed

text \<open>C2 as stated fails: the request raises, the reply is sent, and the window ends with
  the fallback text as an assistant turn.\<close>

theorem process_message_failure_appended_counterexample:
  "completion_failed Request_Error \<and>
   window (fst (process_message (LumiCog 1 [] [])
      \<lparr>author = 7, text_content = ''hi'', guild = None, channel = 5, mentions_bot = False\<rparr>
      \<lparr>http = Request_Error, reply_raises = False, store_raises = False, now = ''t''\<rparr>)) ''7''
   = [\<lparr>role = User, content = ''hi''\<rparr>,
      \<lparr>role = Assistant, content = ''Network error occurred. Please try again later.''\<rparr>]"
  by (simp add: completion_failed_def process_message_def Let_def log_usage_def window_def
      LumiCog_def str_nat.simps clean_def replace.simps strip_def isspace_def
      append_history_def trim_history_def max_history_def call_groq_api_def)

text \<open>
  C10. A direct message that the bot did not write adds no usage row when the reply or the
  insert raises, and otherwise exactly one row after the rows already stored, whatever
  they are: its user id is the author's, its guild id is the literal \<open>DM\<close>, its channel id
  the message's channel, its lengths those of the cleaned input and of the response.
\<close>

theorem dm_usage_record:
  "guild m = None \<Longrightarrow> author m \<noteq> bot_user s \<Longrightarrow>
   usage_stats (fst (on_message s m e)) =
     (if reply_raises e \<or> store_raises e then usage_stats s
      else usage_stats s @
        [\<lparr>user_id = str_nat (author m),
          stat_guild_id = ''DM'', stat_channel_id = str_nat (channel m),
          timestamp = now e,
          message_length = length (clean s (text_content m)),
          response_length = length (call_groq_api (http e))\<rparr>])"
  by (simp add: on_message_def process_message_def Let_def log_usage_def)

theorem dm_usage_record_witness:
  "usage_stats (fst (on_message (LumiCog 1 [] [])
      \<lparr>author = 7, text_content = '' <@1> hi '', guild = None, channel = 5, mentions_bot = True\<rparr>
      \<lparr>http = Response 200 (Content ''hey!''), reply_raises = False, store_raises = False,
        now = ''2024-01-01T00:00:00''\<rparr>))
   = [\<lparr>user_id = ''7'', stat_guild_id = ''DM'', stat_channel_id = ''5'',
       timestamp = ''2024-01-01T00:00:00'', message_length = 2, response_length = 4\<rparr>]"
  using dm_usage_record [of
      "\<lparr>author = 7, text_content = '' <@1> hi '', guild = None, channel = 5, mentions_bot = True\<rparr>"
      "LumiCog 1 [] []"
      "\<lparr>http = Response 200 (Content ''hey!''), reply_raises = False, store_raises = False,
        now = ''2024-01-01T00:00:00''\<rparr>"]
  by (simp add: LumiCog_def str_nat.simps clean_def replace.simps strip_def isspace_def
      call_groq_api_def)

subsection \<open>What holds in every state the cog reaches\<close>

lemma append_history_roles:
  "\<forall>x\<in>set w. role x \<noteq> System \<Longrightarrow> role t \<noteq> System \<Longrightarrow>
   \<forall>x\<in>set (append_history w t). role x \<noteq> System"
  by (auto simp: append_history_drop dest: in_set_dropD)

lemma window_ok_append:
  "window_ok w \<Longrightarrow> role t \<noteq> System \<Longrightarrow> window_ok (append_history w t)"
  unfolding window_ok_def
  using append_history_length [of w t] append_history_roles [of w t] by blast

lemma window_ok_window:
  "\<forall>uid w. conversation_history s uid = Some w \<longrightarrow> window_ok w \<Longrightarrow> window_ok (window s uid)"
  by (simp add: window_def window_ok_def split: option.splits)

lemma process_message_window_ok:
  assumes "\<forall>uid w. conversation_history s uid = Some w \<longrightarrow> window_ok w"
  shows "\<forall>uid w. conversation_history (fst (process_message s m e)) uid = Some w \<longrightarrow> window_ok w"
proof -
  have w0: "window_ok (window s (str_nat (author m)))"
    using assms by (rule window_ok_window)
  have w1: "window_ok (append_history (window s (str_nat (author m)))
              \<lparr>role = User, content = clean s (text_content m)\<rparr>)"
    using w0 by (rule window_ok_append) simp
  have w2: "window_ok (append_history (append_history (window s (str_nat (author m)))
              \<lparr>role = User, content = clean s (text_content m)\<rparr>)
              \<lparr>role = Assistant, content = call_groq_api (http e)\<rparr>)"
    using w1 by (rule window_ok_append) simp
  show ?thesis
    using assms w1 w2 by (simp add: process_message_def Let_def log_usage_def)
qed

lemma on_message_window_ok:
  assumes "\<forall>uid w. conversation_history s uid = Some w \<longrightarrow> window_ok w"
  shows "\<forall>uid w. conversation_history (fst (on_message s m e)) uid = Some w \<longrightarrow> window_ok w"
  using assms process_message_window_ok [OF assms, of m e]
  by (simp add: on_message_def split: option.splits)

lemma add_channel_history:
  "conversation_history (fst (add_channel s cx chan e)) = conversation_history s"
  by (simp add: add_channel_def Let_def split: option.splits)

lemma remove_channel_history:
  "conversation_history (fst (remove_channel s cx chan e)) = conversation_history s"
  by (simp add: remove_channel_def Let_def split: option.splits)

lemma reset_history_window_ok:
  assumes "\<forall>uid w. conversation_history s uid = Some w \<longrightarrow> window_ok w"
  shows "\<forall>uid w. conversation_history (fst (reset_history s cx usr)) uid = Some w \<longrightarrow> window_ok w"
  using assms by (simp add: reset_history_def Let_def window_ok_def)

lemma handle_window_ok:
  assumes "\<forall>uid w. conversation_history s uid = Some w \<longrightarrow> window_ok w"
  shows "\<forall>uid w. conversation_history (handle s ev) uid = Some w \<longrightarrow> window_ok w"
proof (cases ev)
  case (Message m e)
  then show ?thesis using on_message_window_ok [OF assms] by simp
next
  case (Add_Channel cx chan e)
  then show ?thesis using assms by (simp add: add_channel_history)
next
  case (Remove_Channel cx chan e)
  then show ?thesis using assms by (simp add: remove_channel_history)
next
  case (Reset_History cx usr)
  then show ?thesis using reset_history_window_ok [OF assms] by simp
qed

lemma run_window_ok:
  "\<forall>uid w. conversation_history (run (LumiCog b a u) evs) uid = Some w \<longrightarrow> window_ok w"
proof (induction evs rule: rev_induct)
  case Nil
  show ?case by (simp add: run_def LumiCog_def)
next
  case (snoc ev evs)
  have "run (LumiCog b a u) (evs @ [ev]) = handle (run (LumiCog b a u) evs) ev"
    by (simp add: run_def)
  then show ?case using handle_window_ok [OF snoc] by simp
qed

lemma process_message_posts:
  "Post msgs \<in> set (snd (process_message s m e)) \<Longrightarrow>
   msgs = system_prompt # append_history (window s (str_nat (author m)))
            \<lparr>role = User, content = clean s (text_content m)\<rparr>"
  by (auto simp: process_message_def Let_def split: if_splits)

text \<open>
  C8. \<open>max_history\<close> is 3. After any sequence of events handled from the initial state,
  every stored window holds at most \<open>max_history\<close> entries; and the message list a handled
  message posts has at most \<open>max_history\<close> entries after the system turn.
\<close>

theorem window_at_most_max_history:
  "max_history = 3 \<and>
   (\<forall>uid w. conversation_history (run (LumiCog b a u) evs) uid = Some w \<longrightarrow>
      length w \<le> max_history) \<and>
   (\<forall>msgs. Post msgs \<in> set (snd (on_message s m e)) \<longrightarrow> length msgs \<le> 1 + max_history)"
proof (intro conjI allI impI)
  show "max_history = 3" by (simp add: max_history_def)
next
  fix uid w
  assume "conversation_history (run (LumiCog b a u) evs) uid = Some w"
  then have "window_ok w" using run_window_ok by blast
  then show "length w \<le> max_history" by (simp add: window_ok_def)
next
  fix msgs
  assume "Post msgs \<in> set (snd (on_message s m e))"
  then have "Post msgs \<in> set (snd (process_message s m e))"
    by (simp add: on_message_def split: if_splits option.splits)
  then show "length msgs \<le> 1 + max_history"
    using process_message_posts append_history_length by fastforce
qed

theorem window_at_most_max_history_witness:
  "conversation_history (run (LumiCog 1 [] [])
      [Message \<lparr>author = 7, text_content = ''hi'', guild = None, channel = 5,
                 mentions_bot = False\<rparr>
               \<lparr>http = Response 200 (Content ''hey!''), reply_raises = False,
                 store_raises = False, now = ''t''\<rparr>]) ''7''
     = Some [\<lparr>role = User, content = ''hi''\<rparr>, \<lparr>role = Assistant, content = ''hey!''\<rparr>] \<and>
   length [\<lparr>role = User, content = ''hi''\<rparr>, \<lparr>role = Assistant, content = ''hey!''\<rparr>]
     \<le> max_history"
proof -
  have h: "conversation_history (run (LumiCog 1 [] [])
      [Message \<lparr>author = 7, text_content = ''hi'', guild = None, channel = 5,
                 mentions_bot = False\<rparr>
               \<lparr>http = Response 200 (Content ''hey!''), reply_raises = False,
                 store_raises = False, now = ''t''\<rparr>]) ''7''
     = Some [\<lparr>role = User, content = ''hi''\<rparr>, \<lparr>role = Assistant, content = ''hey!''\<rparr>]"
    by (simp add: run_def on_message_def process_message_def Let_def log_usage_def window_def
        LumiCog_def str_nat.simps clean_def replace.simps strip_def isspace_def
        append_history_def trim_history_def max_history_def call_groq_api_def)
  from window_at_most_max_history [THEN conjunct2, THEN conjunct1, rule_format, OF h] h
  show ?thesis by simp
qed

text \<open>
  C5. In every state the cog reaches, and for every message processed there: the handler
  posts one message list and otherwise only replies; the list is the system turn followed
  by the author's window after the user turn with the cleaned text (mention removed, then
  stripped) was appended and the window trimmed; the system turn occurs once in the list;
  and no stored window holds a system turn afterwards.
\<close>

theorem process_message_prompt:
  "(let s = run (LumiCog b a u) evs;
        uid = str_nat (author m);
        cleaned = strip (replace (''<@'' @ str_nat (bot_user s) @ ''>'') [] (text_content m));
        w1 = trim_history (window s uid @ [\<lparr>role = User, content = cleaned\<rparr>])
    in (\<exists>replies. snd (process_message s m e) = Post (system_prompt # w1) # map Reply replies) \<and>
       length (filter (\<lambda>t. role t = System) (system_prompt # w1)) = 1 \<and>
       (\<forall>uid' w. conversation_history (fst (process_message s m e)) uid' = Some w \<longrightarrow>
          (\<forall>t\<in>set w. role t \<noteq> System)))"
proof -
  define s where "s = run (LumiCog b a u) evs"
  define w1 where "w1 = append_history (window s (str_nat (author m)))
                          \<lparr>role = User, content = clean s (text_content m)\<rparr>"
  have inv: "\<forall>uid w. conversation_history s uid = Some w \<longrightarrow> window_ok w"
    unfolding s_def by (rule run_window_ok)
  have "window_ok w1"
    unfolding w1_def using window_ok_window [OF inv] by (rule window_ok_append) simp
  then have nosys: "filter (\<lambda>t. role t = System) w1 = []"
    by (simp add: window_ok_def filter_empty_conv)
  have one: "length (filter (\<lambda>t. role t = System) (system_prompt # w1)) = 1"
    using nosys by (simp add: system_prompt_def)
  have posts: "\<exists>replies. snd (process_message s m e) = Post (system_prompt # w1) # map Reply replies"
  proof (cases "reply_raises e")
    case True
    then have "snd (process_message s m e) = Post (system_prompt # w1) # map Reply [apology]"
      by (simp add: process_message_def Let_def w1_def)
    then show ?thesis by blast
  next
    case False
    show ?thesis
    proof (cases "store_raises e")
      case True
      with False have "snd (process_message s m e)
          = Post (system_prompt # w1) # map Reply [call_groq_api (http e), apology]"
        by (simp add: process_message_def Let_def w1_def)
      then show ?thesis by blast
    next
      case sr: False
      with False have "snd (process_message s m e)
          = Post (system_prompt # w1) # map Reply [call_groq_api (http e)]"
        by (simp add: process_message_def Let_def w1_def)
      then show ?thesis by blast
    qed
  qed
  have stored: "\<forall>uid' w. conversation_history (fst (process_message s m e)) uid' = Some w \<longrightarrow>
      (\<forall>t\<in>set w. role t \<noteq> System)"
    using process_message_window_ok [OF inv, of m e] by (simp add: window_ok_def)
  have w1_eq: "w1 = trim_history (window s (str_nat (author m)) @
      [\<lparr>role = User, content = strip (replace (''<@'' @ str_nat (bot_user s) @ ''>'') []
          (text_content m))\<rparr>])"
    by (simp add: w1_def append_history_def clean_def)
  show ?thesis
    using posts one stored unfolding w1_eq s_def by (simp add: Let_def)
qed

theorem process_message_prompt_witness:
  "hd (snd (process_message (run (LumiCog 1 [] []) [])
      \<lparr>author = 7, text_content = '' <@1> hi '', guild = None, channel = 5, mentions_bot = True\<rparr>
      \<lparr>http = Response 200 (Content ''hey!''), reply_raises = False, store_raises = False,
        now = ''t''\<rparr>))
   = Post [system_prompt, \<lparr>role = User, content = ''hi''\<rparr>]"
proof -
  from process_message_prompt [of 1 "[]" "[]" "[]"
      "\<lparr>author = 7, text_content = '' <@1> hi '', guild = None, channel = 5, mentions_bot = True\<rparr>"
      "\<lparr>http = Response 200 (Content ''hey!''), reply_raises = False, store_raises = False,
        now = ''t''\<rparr>"]
  obtain replies where "snd (process_message (run (LumiCog 1 [] []) [])
      \<lparr>author = 7, text_content = '' <@1> hi '', guild = None, channel = 5, mentions_bot = True\<rparr>
      \<lparr>http = Response 200 (Content ''hey!''), reply_raises = False, store_raises = False,
        now = ''t''\<rparr>)
    = Post [system_prompt, \<lparr>role = User, content = ''hi''\<rparr>] # map Reply replies"
    by (auto simp: Let_def run_def LumiCog_def window_def str_nat.simps replace.simps strip_def
        isspace_def trim_history_def max_history_def)
  then show ?thesis by simp
qed

end
